theory Spec2Isabelle
  imports Main
begin

section \<open>The Skype backend of errbot: data model\<close>

text \<open>
  The backend in \<^verbatim>\<open>skype.py\<close> adapts the objects of the native client library
  (users, chats, chat messages) to the identifiers, rooms and messages of the bot
  framework. Python objects are modelled as records of the attributes the code reads.
  Python checks classes at run time (\<^verbatim>\<open>assert isinstance(...)\<close>), so every native
  object carries the answer to the \<^verbatim>\<open>isinstance\<close> test the code makes on it; a failed
  assertion is the value \<open>Inl AssertionError\<close>. Names starting with an underscore
  in the source lose it here (\<^verbatim>\<open>_make_message\<close> is \<open>make_message\<close>), and the
  private attributes \<^verbatim>\<open>_user\<close>, \<^verbatim>\<open>_chat\<close>, \<^verbatim>\<open>_room\<close> are prefixed with their class.
  Calls to the logger are not modelled, nor are the methods no property below is about
  (\<^verbatim>\<open>serve_forever\<close>, \<^verbatim>\<open>send_message\<close>, \<^verbatim>\<open>rooms\<close>, \<^verbatim>\<open>change_presence\<close>,
  \<^verbatim>\<open>prefix_groupchat_reply\<close>, \<^verbatim>\<open>mode\<close>).
\<close>

datatype py_exception =
    AssertionError
  | AttributeError
  | SkypeError
  | RoomDoesNotExistError
  | ValueError
  | OtherException string

subsection \<open>Native objects\<close>

record skype_user =
  isinstance_User :: bool
  Handle :: string
  FullName :: string
  DisplayName :: string
  ReceivedAuthRequest :: string

record skype_chat =
  isinstance_Chat :: bool
  Name :: string
  Topic :: string
  Chat_Status :: string
  Chat_Type :: string
  Members :: "skype_user list"

text \<open>
  \<open>MarkAsSeen_raises\<close> is what the native client does when \<^verbatim>\<open>MarkAsSeen()\<close> is called
  on the message: \<open>None\<close> when the call returns, \<open>Some e\<close> when it raises \<open>e\<close>.
\<close>

record skype_chat_message =
  isinstance_ChatMessage :: bool
  Status :: string
  Type :: string
  Body :: string
  Chat :: skype_chat
  Sender :: skype_user
  MarkAsSeen_raises :: "py_exception option"

subsection \<open>Identifiers and rooms\<close>

text \<open>
  \<^verbatim>\<open>SkypeChatroomOccupant\<close> is a subclass of \<^verbatim>\<open>SkypeUser\<close>: its record extends the
  one of \<^verbatim>\<open>SkypeUser\<close>, and the accessors of \<^verbatim>\<open>SkypeUser\<close> are defined on the record
  scheme, so they apply to both. The attribute \<^verbatim>\<open>_bot\<close> is a reference back to the
  backend; the one method that follows it (\<^verbatim>\<open>invite\<close>) takes the backend as an argument.
\<close>

record SkypeUser =
  SkypeUser_user :: skype_user

record SkypeChatroom =
  SkypeChatroom_chat :: skype_chat

record SkypeChatroomOccupant = SkypeUser +
  SkypeChatroomOccupant_room :: SkypeChatroom

datatype Identifier =
    User_identifier SkypeUser
  | Occupant_identifier SkypeChatroomOccupant
  | Room_identifier SkypeChatroom

text \<open>The framework's message, with the attributes this backend sets; \<open>None\<close> is Python's.\<close>

record Message =
  body :: "string option"
  type :: string
  frm :: "Identifier option"
  to :: "Identifier option"

subsection \<open>The backend\<close>

text \<open>
  \<open>SKYPE_ACCEPT_CONTACT_REQUESTS = None\<close> is a configuration that does not define
  the attribute.
\<close>

record config =
  SKYPE_ACCEPT_CONTACT_REQUESTS :: "bool option"

text \<open>The state of the native client as the code reads it through \<^verbatim>\<open>self.skype\<close>.\<close>

record Skype =
  Friends :: "skype_user list"
  Chats :: "skype_chat list"
  SearchForUsers :: "string \<Rightarrow> skype_user list"
  CurrentUser :: skype_user
  UsersWaitingAuthorization :: "skype_user list"

text \<open>
  \<open>callback_message\<close> is the framework's method: the model takes what it raises
  (\<open>None\<close> when it returns) as a parameter. \<open>build_identifier_cache\<close> is the dictionary
  of the \<^verbatim>\<open>lru_cache\<close> decorator on \<^verbatim>\<open>build_identifier\<close>.
\<close>

record SkypeBackend =
  bot_config :: config
  skype :: Skype
  bot_identifier :: Identifier
  callback_message :: "Message \<Rightarrow> py_exception option"
  build_identifier_cache :: "string \<rightharpoonup> Identifier"

text \<open>
  Calls that leave the backend are recorded in a trace, in the order they are made:
  method calls on native objects, reads of the client's lists, and the call of the
  framework's \<open>callback_message\<close>.
\<close>

datatype event =
    Call_MarkAsSeen skype_chat_message
  | Call_SetBuddyStatusPendingAuthorization skype_user
  | Call_Join skype_chat
  | Call_Leave skype_chat
  | Call_Disband skype_chat
  | Call_AddMembers skype_chat "string list"
  | Get_Friends
  | Get_Chats
  | Call_SearchForUsers string
  | Call_callback_message Message

section \<open>SkypeUser, SkypeChatroomOccupant\<close>

definition SkypeUser_init :: "skype_user \<Rightarrow> py_exception + SkypeUser" where
  "SkypeUser_init usr =
     (if \<not> isinstance_User usr then Inl AssertionError
      else Inr \<lparr>SkypeUser_user = usr\<rparr>)"

definition SkypeUser_unicode :: "'a SkypeUser_scheme \<Rightarrow> string" where
  "SkypeUser_unicode self = Handle (SkypeUser_user self)"

definition SkypeUser_str :: "'a SkypeUser_scheme \<Rightarrow> string" where
  "SkypeUser_str = SkypeUser_unicode"

definition user :: "'a SkypeUser_scheme \<Rightarrow> skype_user" where
  "user self = SkypeUser_user self"

definition fullname :: "'a SkypeUser_scheme \<Rightarrow> string" where
  "fullname self = FullName (SkypeUser_user self)"

definition nick :: "'a SkypeUser_scheme \<Rightarrow> string" where
  "nick self = Handle (SkypeUser_user self)"

definition handle :: "'a SkypeUser_scheme \<Rightarrow> string" where
  "handle = nick"

definition aclattr :: "'a SkypeUser_scheme \<Rightarrow> string" where
  "aclattr = nick"

definition person :: "'a SkypeUser_scheme \<Rightarrow> string" where
  "person = nick"

definition displayname :: "'a SkypeUser_scheme \<Rightarrow> string" where
  "displayname self = DisplayName (SkypeUser_user self)"

definition SkypeChatroomOccupant_init ::
  "skype_user \<Rightarrow> SkypeChatroom \<Rightarrow> py_exception + SkypeChatroomOccupant" where
  "SkypeChatroomOccupant_init usr rm =
     (case SkypeUser_init usr of
        Inl e \<Rightarrow> Inl e
      | Inr u \<Rightarrow> Inr (SkypeUser.extend u \<lparr>SkypeChatroomOccupant_room = rm\<rparr>))"

definition room :: "SkypeChatroomOccupant \<Rightarrow> SkypeChatroom" where
  "room self = SkypeChatroomOccupant_room self"

section \<open>SkypeChatroom\<close>

definition SkypeChatroom_init :: "skype_chat \<Rightarrow> py_exception + SkypeChatroom" where
  "SkypeChatroom_init cht =
     (if \<not> isinstance_Chat cht then Inl AssertionError
      else Inr \<lparr>SkypeChatroom_chat = cht\<rparr>)"

text \<open>
  Method calls on the native chat are appended to the trace. The arguments
  \<open>username\<close>, \<open>password\<close> and \<open>reason\<close> default to Python's \<open>None\<close>. Apart from
  \<^verbatim>\<open>MarkAsSeen()\<close>, whose failure the code handles, and \<^verbatim>\<open>AddMembers\<close> in
  \<open>invite\<close>, native calls are taken to return.
\<close>

definition chat :: "SkypeChatroom \<Rightarrow> skype_chat" where
  "chat self = SkypeChatroom_chat self"

definition SkypeChatroom_unicode :: "SkypeChatroom \<Rightarrow> string" where
  "SkypeChatroom_unicode self = Name (SkypeChatroom_chat self)"

definition SkypeChatroom_str :: "SkypeChatroom \<Rightarrow> string" where
  "SkypeChatroom_str = SkypeChatroom_unicode"

definition join ::
  "SkypeChatroom \<Rightarrow> string option \<Rightarrow> string option \<Rightarrow> event list \<Rightarrow> event list" where
  "join self username password tr = tr @ [Call_Join (SkypeChatroom_chat self)]"

definition leave :: "SkypeChatroom \<Rightarrow> string option \<Rightarrow> event list \<Rightarrow> event list" where
  "leave self reason tr = tr @ [Call_Leave (SkypeChatroom_chat self)]"

definition create :: "SkypeChatroom \<Rightarrow> event list \<Rightarrow> event list" where
  "create self tr = tr"

definition destroy :: "SkypeChatroom \<Rightarrow> event list \<Rightarrow> event list" where
  "destroy self tr = tr @ [Call_Disband (SkypeChatroom_chat self)]"

definition exists :: "SkypeChatroom \<Rightarrow> bool" where
  "exists self = True"

definition joined :: "SkypeChatroom \<Rightarrow> bool" where
  "joined self = (Chat_Status (SkypeChatroom_chat self) \<noteq> ''UNSUBSCRIBED'')"

definition topic :: "SkypeChatroom \<Rightarrow> string" where
  "topic self = Topic (SkypeChatroom_chat self)"

text \<open>The setter assigns the attribute of the wrapped chat; the room is returned updated.\<close>

definition topic_setter :: "SkypeChatroom \<Rightarrow> string \<Rightarrow> SkypeChatroom" where
  "topic_setter self tpc =
     self\<lparr>SkypeChatroom_chat := (SkypeChatroom_chat self)\<lparr>Topic := tpc\<rparr>\<rparr>"

text \<open>
  The list comprehension of \<^verbatim>\<open>occupants\<close>: one constructor call per member, from
  left to right; the first failed assertion ends it.
\<close>

fun occupants_of ::
  "SkypeChatroom \<Rightarrow> skype_user list \<Rightarrow> py_exception + SkypeChatroomOccupant list" where
  "occupants_of self [] = Inr []"
| "occupants_of self (member # members) =
     (case SkypeChatroomOccupant_init member self of
        Inl e \<Rightarrow> Inl e
      | Inr occupant \<Rightarrow>
          (case occupants_of self members of
             Inl e \<Rightarrow> Inl e
           | Inr rest \<Rightarrow> Inr (occupant # rest)))"

definition occupants :: "SkypeChatroom \<Rightarrow> py_exception + SkypeChatroomOccupant list" where
  "occupants self = occupants_of self (Members (SkypeChatroom_chat self))"

section \<open>SkypeBackend\<close>

definition make_message :: "SkypeBackend \<Rightarrow> skype_chat_message \<Rightarrow> py_exception + Message" where
  "make_message self skype_msg =
     (if \<not> isinstance_ChatMessage skype_msg then Inl AssertionError
      else
        let is_groupchat = length (Members (Chat skype_msg)) > 2 in
        if is_groupchat then
          (case SkypeChatroom_init (Chat skype_msg) of
             Inl e \<Rightarrow> Inl e
           | Inr skypechat \<Rightarrow>
               (case SkypeChatroomOccupant_init (Sender skype_msg) skypechat of
                  Inl e \<Rightarrow> Inl e
                | Inr occupant \<Rightarrow>
                    Inr \<lparr>body = Some (Body skype_msg),
                         type = ''groupchat'',
                         frm = Some (Occupant_identifier occupant),
                         to = Some (Room_identifier skypechat)\<rparr>))
        else
          (case SkypeUser_init (Sender skype_msg) of
             Inl e \<Rightarrow> Inl e
           | Inr sender \<Rightarrow>
               Inr \<lparr>body = Some (Body skype_msg),
                    type = ''chat'',
                    frm = Some (User_identifier sender),
                    to = Some (bot_identifier self)\<rparr>))"

text \<open>
  \<^verbatim>\<open>__init__\<close> works on the object under construction: it stores the configuration,
  with the flag read by \<^verbatim>\<open>getattr(config, 'SKYPE_ACCEPT_CONTACT_REQUESTS', True)\<close>, and
  the handle of the native client.
\<close>

definition SkypeBackend_init :: "SkypeBackend \<Rightarrow> config \<Rightarrow> Skype \<Rightarrow> SkypeBackend" where
  "SkypeBackend_init self cfg client =
     self\<lparr>bot_config :=
            cfg\<lparr>SKYPE_ACCEPT_CONTACT_REQUESTS :=
                  Some (case SKYPE_ACCEPT_CONTACT_REQUESTS cfg of
                          None \<Rightarrow> True
                        | Some flag \<Rightarrow> flag)\<rparr>,
          skype := client\<rparr>"

text \<open>
  The handlers return what they raise (\<open>None\<close> when they return) and the trace.
\<close>

definition message_event_handler ::
  "SkypeBackend \<Rightarrow> skype_chat_message \<Rightarrow> string \<Rightarrow> event list
     \<Rightarrow> py_exception option \<times> event list" where
  "message_event_handler self skype_msg status tr =
     (let mark_as_seen = (\<lambda>tr1.
            (case MarkAsSeen_raises skype_msg of
               None \<Rightarrow> (None, tr1 @ [Call_MarkAsSeen skype_msg])
             | Some e \<Rightarrow>
                 if e = SkypeError then (None, tr1 @ [Call_MarkAsSeen skype_msg])
                 else (Some e, tr1 @ [Call_MarkAsSeen skype_msg])))
      in
      if Status skype_msg = ''RECEIVED'' then
        (case make_message self skype_msg of
           Inl e \<Rightarrow> (Some e, tr)
         | Inr msg \<Rightarrow>
             (case callback_message self msg of
                Some e \<Rightarrow> (Some e, tr @ [Call_callback_message msg])
              | None \<Rightarrow> mark_as_seen (tr @ [Call_callback_message msg])))
      else mark_as_seen tr)"

definition process_contact_request ::
  "SkypeBackend \<Rightarrow> skype_user \<Rightarrow> event list \<Rightarrow> py_exception option \<times> event list" where
  "process_contact_request self usr tr =
     (case SKYPE_ACCEPT_CONTACT_REQUESTS (bot_config self) of
        None \<Rightarrow> (Some AttributeError, tr)
      | Some flag \<Rightarrow>
          if flag then (None, tr @ [Call_SetBuddyStatusPendingAuthorization usr])
          else (None, tr))"

definition contact_request_event_handler ::
  "SkypeBackend \<Rightarrow> skype_user \<Rightarrow> event list \<Rightarrow> py_exception option \<times> event list" where
  "contact_request_event_handler self usr tr = process_contact_request self usr tr"

subsection \<open>build_reply\<close>

text \<open>
  \<^verbatim>\<open>build_reply\<close> assigns to the attributes of the message it is given, so messages
  live in a store here: a reference is a number, and the store gives the object at
  each reference, a message or an object of another class.
\<close>

type_synonym ref = nat

datatype py_object = Message_object Message | Other_object

type_synonym heap = "ref \<Rightarrow> py_object"

definition get_frm :: "heap \<Rightarrow> ref \<Rightarrow> Identifier option" where
  "get_frm h r = (case h r of Message_object m \<Rightarrow> frm m | Other_object \<Rightarrow> None)"

definition assign :: "heap \<Rightarrow> ref \<Rightarrow> (Message \<Rightarrow> Message) \<Rightarrow> heap" where
  "assign h r f = (case h r of Message_object m \<Rightarrow> h(r := Message_object (f m)) | Other_object \<Rightarrow> h)"

text \<open>
  \<^verbatim>\<open>to\<close> and \<^verbatim>\<open>frm\<close> of the framework's message are properties: their setters raise an
  exception for a value that has no \<^verbatim>\<open>person\<close> attribute, and store nothing. Every
  identifier of this backend has the attribute (\<^verbatim>\<open>SkypeChatroom\<close> as \<^verbatim>\<open>person = None\<close>);
  Python's \<open>None\<close> has not. \<open>setter_raises\<close> is what the setter raises for a value.
\<close>

definition setter_raises :: "Identifier option \<Rightarrow> py_exception option" where
  "setter_raises v =
     (case v of
        None \<Rightarrow> Some (OtherException ''not an Identifier as it misses the person property'')
      | Some _ \<Rightarrow> None)"

definition build_reply ::
  "SkypeBackend \<Rightarrow> heap \<Rightarrow> ref \<Rightarrow> string option \<Rightarrow> bool \<Rightarrow> (py_exception + ref) \<times> heap" where
  "build_reply self h mess text private =
     (case h mess of
        Other_object \<Rightarrow> (Inl AssertionError, h)
      | Message_object _ \<Rightarrow>
          let message = mess in
          (case setter_raises (get_frm h mess) of
             Some e \<Rightarrow> (Inl e, h)
           | None \<Rightarrow>
               let h1 = assign h message (\<lambda>m. m\<lparr>to := get_frm h mess\<rparr>) in
               (case setter_raises (Some (bot_identifier self)) of
                  Some e \<Rightarrow> (Inl e, h1)
                | None \<Rightarrow>
                    let h2 = assign h1 message (\<lambda>m. m\<lparr>frm := Some (bot_identifier self)\<rparr>);
                        h3 = assign h2 message (\<lambda>m. m\<lparr>body := text\<rparr>);
                        h4 = (if private then assign h3 message (\<lambda>m. m\<lparr>type := ''chat''\<rparr>)
                              else h3)
                    in (Inr message, h4))))"

subsection \<open>query_room, build_identifier\<close>

definition query_room ::
  "SkypeBackend \<Rightarrow> string \<Rightarrow> event list \<Rightarrow> (py_exception + SkypeChatroom) \<times> event list" where
  "query_room self rm tr =
     (let chats = filter (\<lambda>c. Name c = rm) (Chats (skype self));
          tr1 = tr @ [Get_Chats]
      in if length chats = 1 then
           (case SkypeChatroom_init (chats ! 0) of
              Inl e \<Rightarrow> (Inl e, tr1)
            | Inr r \<Rightarrow> (Inr r, tr1))
         else (Inl RoomDoesNotExistError, tr1))"

text \<open>The function under the decorator.\<close>

definition build_identifier_wrapped ::
  "SkypeBackend \<Rightarrow> string \<Rightarrow> event list \<Rightarrow> (py_exception + Identifier) \<times> event list" where
  "build_identifier_wrapped self text_representation tr =
     (let matches = filter (\<lambda>f. Handle f = text_representation) (Friends (skype self));
          tr1 = tr @ [Get_Friends]
      in if length matches = 1 then
           (case SkypeUser_init (matches ! 0) of
              Inl e \<Rightarrow> (Inl e, tr1)
            | Inr u \<Rightarrow> (Inr (User_identifier u), tr1))
         else
           (case query_room self text_representation tr1 of
              (Inr r, tr2) \<Rightarrow> (Inr (Room_identifier r), tr2)
            | (Inl e, tr2) \<Rightarrow>
                if e \<noteq> RoomDoesNotExistError then (Inl e, tr2)
                else
                  let matches = filter (\<lambda>u. Handle u = text_representation)
                                  (SearchForUsers (skype self) text_representation);
                      tr3 = tr2 @ [Call_SearchForUsers text_representation]
                  in if length matches = 1 then
                       (case SkypeUser_init (matches ! 0) of
                          Inl e \<Rightarrow> (Inl e, tr3)
                        | Inr u \<Rightarrow> (Inr (User_identifier u), tr3))
                     else (Inl ValueError, tr3)))"

text \<open>
  \<^verbatim>\<open>@lru_cache(maxsize=None)\<close>: a dictionary from the argument to the result. A call
  whose argument is in the dictionary returns the stored result and does not run the
  function; otherwise the function runs, and its result is stored when it returns.
  A call that raises stores nothing.
\<close>

definition build_identifier ::
  "SkypeBackend \<Rightarrow> string \<Rightarrow> event list
     \<Rightarrow> (py_exception + Identifier) \<times> SkypeBackend \<times> event list" where
  "build_identifier self text_representation tr =
     (case build_identifier_cache self text_representation of
        Some result \<Rightarrow> (Inr result, self, tr)
      | None \<Rightarrow>
          (case build_identifier_wrapped self text_representation tr of
             (Inr result, tr1) \<Rightarrow>
               (Inr result,
                self\<lparr>build_identifier_cache :=
                       (build_identifier_cache self)(text_representation \<mapsto> result)\<rparr>,
                tr1)
           | (Inl e, tr1) \<Rightarrow> (Inl e, self, tr1)))"

subsection \<open>invite\<close>

text \<open>
  \<^verbatim>\<open>invite\<close> is a method of the room; it is defined here because it calls
  \<open>build_identifier\<close> of the backend its \<^verbatim>\<open>_bot\<close> refers to. \<open>str_Identifier\<close> is
  Python's \<^verbatim>\<open>str\<close> on the identifier returned. The native \<^verbatim>\<open>AddMembers(*Members)\<close>
  takes users, one argument each, and reads the \<^verbatim>\<open>Handle\<close> of every argument: called
  with one list of strings, as here, it raises \<open>AttributeError\<close>.
\<close>

fun str_Identifier :: "Identifier \<Rightarrow> string" where
  "str_Identifier (User_identifier u) = SkypeUser_str u"
| "str_Identifier (Occupant_identifier u) = SkypeUser_str u"
| "str_Identifier (Room_identifier r) = SkypeChatroom_str r"

fun invite_users ::
  "SkypeBackend \<Rightarrow> string list \<Rightarrow> event list
     \<Rightarrow> (py_exception + string list) \<times> SkypeBackend \<times> event list" where
  "invite_users bk [] tr = (Inr [], bk, tr)"
| "invite_users bk (usr # args) tr =
     (case build_identifier bk usr tr of
        (Inl e, bk1, tr1) \<Rightarrow> (Inl e, bk1, tr1)
      | (Inr ident, bk1, tr1) \<Rightarrow>
          (case invite_users bk1 args tr1 of
             (Inl e, bk2, tr2) \<Rightarrow> (Inl e, bk2, tr2)
           | (Inr users, bk2, tr2) \<Rightarrow> (Inr (str_Identifier ident # users), bk2, tr2)))"

definition invite ::
  "SkypeChatroom \<Rightarrow> SkypeBackend \<Rightarrow> string list \<Rightarrow> event list
     \<Rightarrow> py_exception option \<times> SkypeBackend \<times> event list" where
  "invite self bk args tr =
     (case invite_users bk args tr of
        (Inl e, bk1, tr1) \<Rightarrow> (Some e, bk1, tr1)
      | (Inr users, bk1, tr1) \<Rightarrow>
          (Some AttributeError, bk1, tr1 @ [Call_AddMembers (SkypeChatroom_chat self) users]))"

subsection \<open>Sequences of operations\<close>

text \<open>
  The operations the framework can perform on a room, and the effect of a sequence of
  them on the room, the backend and the trace. An operation that raises leaves what it
  did before raising; the sequence goes on.
\<close>

datatype room_operation =
    Op_join "string option" "string option"
  | Op_leave "string option"
  | Op_create
  | Op_destroy
  | Op_set_topic string
  | Op_invite "string list"

fun run_operation ::
  "room_operation \<Rightarrow> SkypeChatroom \<times> SkypeBackend \<times> event list
     \<Rightarrow> SkypeChatroom \<times> SkypeBackend \<times> event list" where
  "run_operation (Op_join username password) (r, bk, tr) = (r, bk, join r username password tr)"
| "run_operation (Op_leave reason) (r, bk, tr) = (r, bk, leave r reason tr)"
| "run_operation Op_create (r, bk, tr) = (r, bk, create r tr)"
| "run_operation Op_destroy (r, bk, tr) = (r, bk, destroy r tr)"
| "run_operation (Op_set_topic tpc) (r, bk, tr) = (topic_setter r tpc, bk, tr)"
| "run_operation (Op_invite args) (r, bk, tr) =
     (case invite r bk args tr of (_, bk1, tr1) \<Rightarrow> (r, bk1, tr1))"

definition run_operations ::
  "room_operation list \<Rightarrow> SkypeChatroom \<times> SkypeBackend \<times> event list
     \<Rightarrow> SkypeChatroom \<times> SkypeBackend \<times> event list" where
  "run_operations ops st = fold run_operation ops st"

subsection \<open>Sequences of calls of build_identifier\<close>

text \<open>
  Between two calls the native client may change: each call of a sequence comes with
  the state of the client at that moment.
\<close>

fun build_identifier_calls ::
  "(Skype \<times> string) list \<Rightarrow> SkypeBackend \<Rightarrow> event list \<Rightarrow> SkypeBackend \<times> event list" where
  "build_identifier_calls [] self tr = (self, tr)"
| "build_identifier_calls ((client, txt) # calls) self tr =
     (case build_identifier (self\<lparr>skype := client\<rparr>) txt tr of
        (_, self1, tr1) \<Rightarrow> build_identifier_calls calls self1 tr1)"


section \<open>Example values\<close>

text \<open>Concrete users, chats, messages and a backend, for the instances below.\<close>

definition example_alice :: skype_user where
  "example_alice = \<lparr>isinstance_User = True, Handle = ''alice'', FullName = ''Alice A'',
     DisplayName = ''Al'', ReceivedAuthRequest = ''hi''\<rparr>"

definition example_bob :: skype_user where
  "example_bob = \<lparr>isinstance_User = True, Handle = ''bob'', FullName = ''Bob B'',
     DisplayName = ''Bobby'', ReceivedAuthRequest = ''''\<rparr>"

definition example_carol :: skype_user where
  "example_carol = \<lparr>isinstance_User = True, Handle = ''carol'', FullName = ''Carol C'',
     DisplayName = ''Caz'', ReceivedAuthRequest = ''''\<rparr>"

definition example_chat :: "skype_user list \<Rightarrow> skype_chat" where
  "example_chat members = \<lparr>isinstance_Chat = True, Name = ''#room'', Topic = ''old'',
     Chat_Status = ''SUBSCRIBED'', Chat_Type = ''DIALOG'', Members = members\<rparr>"

definition example_message :: "string \<Rightarrow> skype_chat \<Rightarrow> py_exception option \<Rightarrow> skype_chat_message" where
  "example_message st cht seen = \<lparr>isinstance_ChatMessage = True, Status = st, Type = ''SAID'',
     Body = ''hello'', Chat = cht, Sender = example_alice, MarkAsSeen_raises = seen\<rparr>"

definition example_client :: Skype where
  "example_client = \<lparr>Friends = [example_alice], Chats = [example_chat [example_alice, example_bob, example_carol]],
     SearchForUsers = (\<lambda>txt. if txt = ''carol'' then [example_carol] else []),
     CurrentUser = example_bob, UsersWaitingAuthorization = []\<rparr>"

definition example_backend :: SkypeBackend where
  "example_backend = \<lparr>bot_config = \<lparr>SKYPE_ACCEPT_CONTACT_REQUESTS = Some True\<rparr>,
     skype = example_client,
     bot_identifier = User_identifier \<lparr>SkypeUser_user = example_bob\<rparr>,
     callback_message = (\<lambda>msg. None),
     build_identifier_cache = Map.empty\<rparr>"

definition example_heap :: heap where
  "example_heap = (\<lambda>r. Other_object)
     (0 := Message_object \<lparr>body = Some ''hello'', type = ''groupchat'',
            frm = Some (User_identifier \<lparr>SkypeUser_user = example_alice\<rparr>),
            to = Some (Room_identifier \<lparr>SkypeChatroom_chat = example_chat []\<rparr>)\<rparr>)"

definition example_dave :: skype_user where
  "example_dave = \<lparr>isinstance_User = True, Handle = ''dave'', FullName = ''Dave D'',
     DisplayName = ''Dave'', ReceivedAuthRequest = ''''\<rparr>"

section \<open>Properties\<close>

subsection \<open>Constructors on instances of the asserted class\<close>

lemma SkypeUser_init_ok: "isinstance_User u \<Longrightarrow> SkypeUser_init u = Inr \<lparr>SkypeUser_user = u\<rparr>"
  by (simp add: SkypeUser_init_def)

lemma SkypeChatroom_init_ok: "isinstance_Chat c \<Longrightarrow> SkypeChatroom_init c = Inr \<lparr>SkypeChatroom_chat = c\<rparr>"
  by (simp add: SkypeChatroom_init_def)

lemma SkypeChatroomOccupant_init_ok:
  "isinstance_User u \<Longrightarrow>
   SkypeChatroomOccupant_init u r = Inr \<lparr>SkypeUser_user = u, SkypeChatroomOccupant_room = r\<rparr>"
  by (simp add: SkypeChatroomOccupant_init_def SkypeUser_init_ok SkypeUser.extend_def)

lemma occupants_of_ok:
  "\<forall>member \<in> set members. isinstance_User member \<Longrightarrow>
   occupants_of self members =
     Inr (map (\<lambda>member. \<lparr>SkypeUser_user = member, SkypeChatroomOccupant_room = self\<rparr>) members)"
  by (induction members) (simp_all add: SkypeChatroomOccupant_init_ok)

subsection \<open>Incoming messages\<close>

text \<open>
  C1. For a native chat message (an instance of \<^verbatim>\<open>ChatMessage\<close> whose sender is a
  \<^verbatim>\<open>User\<close> and whose chat is a \<^verbatim>\<open>Chat\<close>), \<open>make_message\<close> returns a message whose
  type is \<open>groupchat\<close> if and only if the chat has more than two members; with two or
  fewer members the type is \<open>chat\<close> and the message is addressed to the bot's own
  identifier. The type does not depend on the \<^verbatim>\<open>Type\<close> attribute of the message or of
  the chat.
\<close>

theorem make_message_groupchat_iff_more_than_two_members:
  assumes "isinstance_ChatMessage m" and "isinstance_User (Sender m)" and "isinstance_Chat (Chat m)"
  shows "\<exists>msg. make_message self m = Inr msg
    \<and> ((type msg = ''groupchat'') = (2 < length (Members (Chat m))))
    \<and> (if 2 < length (Members (Chat m))
        then to msg = Some (Room_identifier \<lparr>SkypeChatroom_chat = Chat m\<rparr>)
        else type msg = ''chat'' \<and> to msg = Some (bot_identifier self))
    \<and> (\<forall>ty cty. map_sum id type
           (make_message self (m\<lparr>Type := ty, Chat := (Chat m)\<lparr>Chat_Type := cty\<rparr>\<rparr>)) = Inr (type msg))"
  using assms
  by (simp add: make_message_def SkypeUser_init_ok SkypeChatroom_init_ok SkypeChatroomOccupant_init_ok)

theorem make_message_groupchat_iff_more_than_two_members_witness:
  "isinstance_ChatMessage (example_message ''RECEIVED'' (example_chat [example_alice, example_bob]) None)
   \<and> isinstance_User (Sender (example_message ''RECEIVED'' (example_chat [example_alice, example_bob]) None))
   \<and> isinstance_Chat (Chat (example_message ''RECEIVED'' (example_chat [example_alice, example_bob]) None))
   \<and> (\<exists>msg. make_message example_backend
               (example_message ''RECEIVED'' (example_chat [example_alice, example_bob]) None) = Inr msg
         \<and> type msg = ''chat'' \<and> to msg = Some (bot_identifier example_backend))"
proof -
  let ?m = "example_message ''RECEIVED'' (example_chat [example_alice, example_bob]) None"
  have h1: "isinstance_ChatMessage ?m" by (simp add: example_message_def)
  have h2: "isinstance_User (Sender ?m)" by (simp add: example_message_def example_alice_def)
  have h3: "isinstance_Chat (Chat ?m)" by (simp add: example_message_def example_chat_def)
  have len: "length (Members (Chat ?m)) = 2" by (simp add: example_message_def example_chat_def)
  from make_message_groupchat_iff_more_than_two_members [OF h1 h2 h3, of example_backend]
  obtain msg where "make_message example_backend ?m = Inr msg"
    and "if 2 < length (Members (Chat ?m))
        then to msg = Some (Room_identifier \<lparr>SkypeChatroom_chat = Chat ?m\<rparr>)
        else type msg = ''chat'' \<and> to msg = Some (bot_identifier example_backend)"
    by blast
  with len h1 h2 h3 show ?thesis by simp
qed

subsection \<open>Identifiers\<close>

text \<open>
  C6. The accessors of a \<^verbatim>\<open>SkypeUser\<close> (and of its subclass) return the attributes of
  the wrapped native user unchanged: \<open>nick\<close>, \<open>handle\<close>, \<open>person\<close>, \<open>aclattr\<close> and the
  string conversion return its \<^verbatim>\<open>Handle\<close>, \<open>fullname\<close> its \<^verbatim>\<open>FullName\<close>, and
  \<open>displayname\<close> its \<^verbatim>\<open>DisplayName\<close>.
\<close>

theorem SkypeUser_accessors:
  fixes self :: "'a SkypeUser_scheme"
  shows "nick self = Handle (user self)
    \<and> handle self = Handle (user self)
    \<and> person self = Handle (user self)
    \<and> aclattr self = Handle (user self)
    \<and> SkypeUser_str self = Handle (user self)
    \<and> SkypeUser_unicode self = Handle (user self)
    \<and> fullname self = FullName (user self)
    \<and> displayname self = DisplayName (user self)
    \<and> user self = SkypeUser_user self"
  by (simp add: nick_def handle_def person_def aclattr_def SkypeUser_str_def
      SkypeUser_unicode_def fullname_def displayname_def user_def)

subsection \<open>Rooms\<close>

text \<open>
  C7. The operations of a room forward to the wrapped native chat: \<open>join\<close> calls
  \<^verbatim>\<open>Join()\<close> whatever the user name and password, \<open>leave\<close> calls \<^verbatim>\<open>Leave()\<close> whatever
  the reason, \<open>topic\<close> reads the chat's \<^verbatim>\<open>Topic\<close> and the setter assigns it, so that a
  read after a write gives the value written, and \<open>occupants\<close> returns one occupant per
  member of the chat, in the order of the member list, each in this room.
\<close>

theorem SkypeChatroom_forwards:
  assumes "\<forall>member \<in> set (Members (chat self)). isinstance_User member"
  shows "join self username password tr = tr @ [Call_Join (chat self)]
    \<and> leave self reason tr = tr @ [Call_Leave (chat self)]
    \<and> topic self = Topic (chat self)
    \<and> chat (topic_setter self tpc) = (chat self)\<lparr>Topic := tpc\<rparr>
    \<and> topic (topic_setter self tpc) = tpc
    \<and> (\<exists>occs. occupants self = Inr occs
          \<and> map user occs = Members (chat self)
          \<and> map room occs = map (\<lambda>member. self) (Members (chat self)))"
proof -
  have "occupants self =
      Inr (map (\<lambda>member. \<lparr>SkypeUser_user = member, SkypeChatroomOccupant_room = self\<rparr>)
             (Members (SkypeChatroom_chat self)))"
    using assms by (simp add: occupants_def occupants_of_ok chat_def)
  then have "\<exists>occs. occupants self = Inr occs
          \<and> map user occs = Members (chat self)
          \<and> map room occs = map (\<lambda>member. self) (Members (chat self))"
    by (simp add: chat_def user_def room_def comp_def)
  then show ?thesis
    by (simp add: join_def leave_def topic_def topic_setter_def chat_def)
qed

theorem SkypeChatroom_forwards_witness:
  "list_all isinstance_User
     (Members (chat \<lparr>SkypeChatroom_chat = example_chat [example_alice, example_bob]\<rparr>))
   \<and> join \<lparr>SkypeChatroom_chat = example_chat [example_alice, example_bob]\<rparr> (Some ''u'') (Some ''p'') []
       = [Call_Join (example_chat [example_alice, example_bob])]
   \<and> topic (topic_setter \<lparr>SkypeChatroom_chat = example_chat [example_alice, example_bob]\<rparr> ''new'') = ''new''
   \<and> (\<exists>occs. occupants \<lparr>SkypeChatroom_chat = example_chat [example_alice, example_bob]\<rparr> = Inr occs
         \<and> map user occs = [example_alice, example_bob])"
proof -
  let ?r = "\<lparr>SkypeChatroom_chat = example_chat [example_alice, example_bob]\<rparr>"
  have mem: "Members (chat ?r) = [example_alice, example_bob]"
    by (simp add: chat_def example_chat_def)
  have h: "\<forall>member \<in> set (Members (chat ?r)). isinstance_User member"
    unfolding mem by (simp add: example_alice_def example_bob_def)
  have c: "chat ?r = example_chat [example_alice, example_bob]"
    by (simp add: chat_def)
  have mem': "Members (example_chat [example_alice, example_bob]) = [example_alice, example_bob]"
    by (simp add: example_chat_def)
  show ?thesis
    using h SkypeChatroom_forwards [OF h, of "Some ''u''" "Some ''p''" "[]" None "''new''"]
    by (auto simp add: c mem' list_all_iff)
qed

text \<open>
  C10. \<open>exists\<close> is \<open>True\<close> for every room and after every sequence of operations on
  it, \<open>destroy\<close> included; it does not depend on the wrapped chat.
\<close>

theorem exists_always_True:
  "exists (fst (run_operations ops (self, bk, tr))) = True
   \<and> exists self = True
   \<and> exists (self\<lparr>SkypeChatroom_chat := c\<rparr>) = exists self"
  by (simp add: exists_def)

subsection \<open>Replies\<close>

lemma build_reply_without_sender:
  assumes "h mess = Message_object m" and "frm m = None"
  shows "\<exists>e. build_reply self h mess text private = (Inl e, h)"
  using assms by (simp add: build_reply_def get_frm_def setter_raises_def)

text \<open>
  C9. For a message that has a sender, \<open>build_reply\<close> changes the message it is given
  and returns the same reference: afterwards the message at that reference has the
  original sender as \<open>to\<close>, the bot's identifier as \<open>frm\<close>, the given text as body
  (\<open>None\<close> when none is given), and the type \<open>chat\<close> when \<open>private\<close> is true, its
  original type otherwise. Nothing else in the store changes.
\<close>

theorem build_reply_in_place:
  assumes "h mess = Message_object m" and "frm m \<noteq> None"
  shows "build_reply self h mess text private =
    (Inr mess,
     h(mess := Message_object
         \<lparr>body = text,
          type = (if private then ''chat'' else type m),
          frm = Some (bot_identifier self),
          to = frm m\<rparr>))"
proof -
  from assms(2) obtain sender where sender: "frm m = Some sender"
    by blast
  with assms(1) show ?thesis
    by (cases m)
       (simp add: build_reply_def setter_raises_def assign_def get_frm_def Let_def)
qed

theorem build_reply_in_place_witness:
  "example_heap 0 = Message_object \<lparr>body = Some ''hello'', type = ''groupchat'',
            frm = Some (User_identifier \<lparr>SkypeUser_user = example_alice\<rparr>),
            to = Some (Room_identifier \<lparr>SkypeChatroom_chat = example_chat []\<rparr>)\<rparr>
   \<and> frm \<lparr>body = Some ''hello'', type = ''groupchat'',
            frm = Some (User_identifier \<lparr>SkypeUser_user = example_alice\<rparr>),
            to = Some (Room_identifier \<lparr>SkypeChatroom_chat = example_chat []\<rparr>)\<rparr> \<noteq> None
   \<and> build_reply example_backend example_heap 0 None False =
       (Inr 0, example_heap(0 := Message_object \<lparr>body = None, type = ''groupchat'',
            frm = Some (bot_identifier example_backend),
            to = Some (User_identifier \<lparr>SkypeUser_user = example_alice\<rparr>)\<rparr>))"
proof -
  let ?m = "\<lparr>body = Some ''hello'', type = ''groupchat'',
            frm = Some (User_identifier \<lparr>SkypeUser_user = example_alice\<rparr>),
            to = Some (Room_identifier \<lparr>SkypeChatroom_chat = example_chat []\<rparr>)\<rparr>"
  have h: "example_heap 0 = Message_object ?m"
    by (simp add: example_heap_def)
  have s: "frm ?m \<noteq> None"
    by simp
  show ?thesis
    using h s build_reply_in_place [of example_heap 0 ?m example_backend None False, OF h s]
    by simp
qed

subsection \<open>Looking rooms up\<close>

text \<open>
  C8. When the chats of the client are instances of \<^verbatim>\<open>Chat\<close>, \<open>query_room\<close> returns a
  room if and only if exactly one chat of the client's list has the given name; the
  room then wraps a chat of the list with that name. With no such chat, and with two or
  more, it raises \<open>RoomDoesNotExistError\<close>.
\<close>

theorem query_room_exactly_one:
  assumes "\<forall>c \<in> set (Chats (skype self)). isinstance_Chat c"
  shows "((\<exists>r. fst (query_room self rm tr) = Inr r)
            = (length (filter (\<lambda>c. Name c = rm) (Chats (skype self))) = 1))
    \<and> (\<forall>r. fst (query_room self rm tr) = Inr r \<longrightarrow>
            Name (chat r) = rm \<and> chat r \<in> set (Chats (skype self)))
    \<and> (length (filter (\<lambda>c. Name c = rm) (Chats (skype self))) \<noteq> 1 \<longrightarrow>
            fst (query_room self rm tr) = Inl RoomDoesNotExistError)"
proof -
  let ?chats = "filter (\<lambda>c. Name c = rm) (Chats (skype self))"
  show ?thesis
  proof (cases "length ?chats = 1")
    case True
    then obtain c where c: "?chats = [c]"
      by (cases ?chats) simp_all
    then have "c \<in> set ?chats" by simp
    then have cin: "c \<in> set (Chats (skype self))" and cname: "Name c = rm" by simp_all
    with assms have "isinstance_Chat c" by blast
    then have "fst (query_room self rm tr) = Inr \<lparr>SkypeChatroom_chat = c\<rparr>"
      by (simp add: query_room_def c SkypeChatroom_init_ok)
    with True cin cname show ?thesis by (simp add: chat_def)
  next
    case False
    then have "fst (query_room self rm tr) = Inl RoomDoesNotExistError"
      by (simp add: query_room_def)
    with False show ?thesis by simp
  qed
qed


theorem query_room_exactly_one_witness:
  "list_all isinstance_Chat (Chats (skype example_backend))
   \<and> fst (query_room example_backend ''#room'' []) =
         Inr \<lparr>SkypeChatroom_chat = example_chat [example_alice, example_bob, example_carol]\<rparr>
   \<and> fst (query_room example_backend ''#none'' []) = Inl RoomDoesNotExistError
   \<and> list_all isinstance_Chat
         (Chats (skype (example_backend\<lparr>skype := example_client\<lparr>Chats := [example_chat [], example_chat []]\<rparr>\<rparr>)))
   \<and> fst (query_room (example_backend\<lparr>skype := example_client\<lparr>Chats := [example_chat [], example_chat []]\<rparr>\<rparr>)
              ''#room'' []) = Inl RoomDoesNotExistError"
proof -
  let ?two = "example_backend\<lparr>skype := example_client\<lparr>Chats := [example_chat [], example_chat []]\<rparr>\<rparr>"
  have chats: "Chats (skype example_backend) = [example_chat [example_alice, example_bob, example_carol]]"
    by (simp add: example_backend_def example_client_def)
  have chats2: "Chats (skype ?two) = [example_chat [], example_chat []]"
    by simp
  have inst: "\<And>ms. isinstance_Chat (example_chat ms)" and name: "\<And>ms. Name (example_chat ms) = ''#room''"
    by (simp_all add: example_chat_def)
  have h1: "\<forall>c \<in> set (Chats (skype example_backend)). isinstance_Chat c"
    unfolding chats by (simp add: inst)
  have h2: "\<forall>c \<in> set (Chats (skype ?two)). isinstance_Chat c"
    unfolding chats2 by (simp add: inst)
  have one: "fst (query_room example_backend ''#room'' []) =
         Inr \<lparr>SkypeChatroom_chat = example_chat [example_alice, example_bob, example_carol]\<rparr>"
    by (simp add: query_room_def chats name SkypeChatroom_init_ok inst)
  from query_room_exactly_one [OF h1, of "''#none''" "[]"]
  have none: "fst (query_room example_backend ''#none'' []) = Inl RoomDoesNotExistError"
    by (simp add: chats name)
  from query_room_exactly_one [OF h2, of "''#room''" "[]"]
  have two: "fst (query_room ?two ''#room'' []) = Inl RoomDoesNotExistError"
    by (simp add: name)
  from h1 h2 one none two show ?thesis
    by (simp add: list_all_iff)
qed

subsection \<open>Contact requests\<close>

text \<open>
  C4. After \<^verbatim>\<open>__init__\<close> with a configuration, a contact request is accepted by a call
  of \<^verbatim>\<open>SetBuddyStatusPendingAuthorization()\<close> on the user unless the configuration
  sets \<open>SKYPE_ACCEPT_CONTACT_REQUESTS\<close> to false: an absent flag counts as true. With
  the flag false nothing is called. The event handler does the same.
\<close>

theorem process_contact_request_accepts_iff_flag:
  "process_contact_request (SkypeBackend_init self cfg client) usr tr =
     (None, if SKYPE_ACCEPT_CONTACT_REQUESTS cfg = Some False then tr
            else tr @ [Call_SetBuddyStatusPendingAuthorization usr])
   \<and> contact_request_event_handler (SkypeBackend_init self cfg client) usr tr =
       process_contact_request (SkypeBackend_init self cfg client) usr tr
   \<and> (SKYPE_ACCEPT_CONTACT_REQUESTS (bot_config self) = Some flag \<longrightarrow>
        process_contact_request self usr tr =
          (None, if flag then tr @ [Call_SetBuddyStatusPendingAuthorization usr] else tr))"
  by (cases "SKYPE_ACCEPT_CONTACT_REQUESTS cfg")
     (auto simp add: process_contact_request_def SkypeBackend_init_def
        contact_request_event_handler_def)

theorem process_contact_request_accepts_iff_flag_witness:
  "process_contact_request
      (SkypeBackend_init example_backend \<lparr>SKYPE_ACCEPT_CONTACT_REQUESTS = None\<rparr> example_client)
      example_alice [] = (None, [Call_SetBuddyStatusPendingAuthorization example_alice])
   \<and> SKYPE_ACCEPT_CONTACT_REQUESTS
        (bot_config (example_backend\<lparr>bot_config := \<lparr>SKYPE_ACCEPT_CONTACT_REQUESTS = Some False\<rparr>\<rparr>))
        = Some False
   \<and> process_contact_request
        (example_backend\<lparr>bot_config := \<lparr>SKYPE_ACCEPT_CONTACT_REQUESTS = Some False\<rparr>\<rparr>)
        example_alice [] = (None, [])"
  using process_contact_request_accepts_iff_flag
      [of example_backend "\<lparr>SKYPE_ACCEPT_CONTACT_REQUESTS = None\<rparr>" example_client example_alice "[]" False]
    process_contact_request_accepts_iff_flag
      [of "example_backend\<lparr>bot_config := \<lparr>SKYPE_ACCEPT_CONTACT_REQUESTS = Some False\<rparr>\<rparr>"
          "\<lparr>SKYPE_ACCEPT_CONTACT_REQUESTS = None\<rparr>" example_client example_alice "[]" False]
  by simp

subsection \<open>The message event handler\<close>


lemma make_message_MarkAsSeen_raises:
  "make_message self (m\<lparr>MarkAsSeen_raises := x\<rparr>) = make_message self m"
  by (simp add: make_message_def split: sum.splits)






lemma handler_returns_iff:
  "(fst (message_event_handler self m status tr) = None) =
      ((Status m \<noteq> ''RECEIVED''
          \<or> (\<exists>msg. make_message self m = Inr msg \<and> callback_message self msg = None))
       \<and> (MarkAsSeen_raises m = None \<or> MarkAsSeen_raises m = Some SkypeError))"
  by (auto simp add: message_event_handler_def split: sum.splits option.splits)

lemma handler_swallows_SkypeError:
  "fst (message_event_handler self (m\<lparr>MarkAsSeen_raises := Some SkypeError\<rparr>) status tr) =
   fst (message_event_handler self (m\<lparr>MarkAsSeen_raises := None\<rparr>) status tr)"
  by (simp add: message_event_handler_def make_message_MarkAsSeen_raises
      split: sum.splits option.splits)

lemma handler_MarkAsSeen_propagates:
  assumes "MarkAsSeen_raises m = Some e" and "e \<noteq> SkypeError"
    and "Status m \<noteq> ''RECEIVED''
          \<or> (\<exists>msg. make_message self m = Inr msg \<and> callback_message self msg = None)"
  shows "fst (message_event_handler self m status tr) = Some e"
  using assms
  by (auto simp add: message_event_handler_def split: sum.splits option.splits)

text \<open>
  C3. The handler catches one exception only, \<open>SkypeError\<close> raised by
  \<^verbatim>\<open>MarkAsSeen()\<close>: the handler returns normally exactly when the conversion and the
  callback (if the message is received) raise nothing and \<^verbatim>\<open>MarkAsSeen()\<close> returns or
  raises \<open>SkypeError\<close>; a \<open>SkypeError\<close> of \<^verbatim>\<open>MarkAsSeen()\<close> gives the result of a
  call that returns; an exception of \<open>make_message\<close> or of \<open>callback_message\<close>
  (\<open>SkypeError\<close> included) leaves the handler, and so does any other exception of
  \<^verbatim>\<open>MarkAsSeen()\<close>.
\<close>

theorem message_event_handler_exceptions:
  "((fst (message_event_handler self m status tr) = None) =
      ((Status m \<noteq> ''RECEIVED''
          \<or> (\<exists>msg. make_message self m = Inr msg \<and> callback_message self msg = None))
       \<and> (MarkAsSeen_raises m = None \<or> MarkAsSeen_raises m = Some SkypeError)))
   \<and> fst (message_event_handler self (m\<lparr>MarkAsSeen_raises := Some SkypeError\<rparr>) status tr) =
       fst (message_event_handler self (m\<lparr>MarkAsSeen_raises := None\<rparr>) status tr)
   \<and> (Status m = ''RECEIVED'' \<longrightarrow> make_message self m = Inl e \<longrightarrow>
         message_event_handler self m status tr = (Some e, tr))
   \<and> (Status m = ''RECEIVED'' \<longrightarrow> make_message self m = Inr msg \<longrightarrow>
       callback_message self msg = Some e \<longrightarrow>
         message_event_handler self m status tr = (Some e, tr @ [Call_callback_message msg]))
   \<and> (MarkAsSeen_raises m = Some e \<longrightarrow> e \<noteq> SkypeError \<longrightarrow>
       (Status m \<noteq> ''RECEIVED''
          \<or> (\<exists>msg. make_message self m = Inr msg \<and> callback_message self msg = None)) \<longrightarrow>
         fst (message_event_handler self m status tr) = Some e)"
proof (intro conjI impI)
  show "(fst (message_event_handler self m status tr) = None) =
      ((Status m \<noteq> ''RECEIVED''
          \<or> (\<exists>msg. make_message self m = Inr msg \<and> callback_message self msg = None))
       \<and> (MarkAsSeen_raises m = None \<or> MarkAsSeen_raises m = Some SkypeError))"
    by (rule handler_returns_iff)
next
  show "fst (message_event_handler self (m\<lparr>MarkAsSeen_raises := Some SkypeError\<rparr>) status tr) =
       fst (message_event_handler self (m\<lparr>MarkAsSeen_raises := None\<rparr>) status tr)"
    by (rule handler_swallows_SkypeError)
next
  assume "Status m = ''RECEIVED''" and "make_message self m = Inl e"
  then show "message_event_handler self m status tr = (Some e, tr)"
    by (simp add: message_event_handler_def)
next
  assume "Status m = ''RECEIVED''" and "make_message self m = Inr msg"
    and "callback_message self msg = Some e"
  then show "message_event_handler self m status tr = (Some e, tr @ [Call_callback_message msg])"
    by (simp add: message_event_handler_def)
next
  assume "MarkAsSeen_raises m = Some e" and "e \<noteq> SkypeError"
    and "Status m \<noteq> ''RECEIVED''
          \<or> (\<exists>msg. make_message self m = Inr msg \<and> callback_message self msg = None)"
  then show "fst (message_event_handler self m status tr) = Some e"
    by (rule handler_MarkAsSeen_propagates)
qed


theorem message_event_handler_exceptions_witness:
  "message_event_handler example_backend
      ((example_message ''RECEIVED'' (example_chat []) None)\<lparr>isinstance_ChatMessage := False\<rparr>)
      ''RECEIVED'' [] = (Some AssertionError, [])
   \<and> fst (message_event_handler (example_backend\<lparr>callback_message := (\<lambda>msg. Some SkypeError)\<rparr>)
          (example_message ''RECEIVED'' (example_chat []) None) ''RECEIVED'' []) = Some SkypeError
   \<and> fst (message_event_handler example_backend
          (example_message ''SENT'' (example_chat []) (Some (OtherException ''boom''))) ''SENT'' [])
       = Some (OtherException ''boom'')
   \<and> fst (message_event_handler example_backend
          (example_message ''RECEIVED'' (example_chat []) (Some SkypeError)) ''RECEIVED'' []) = None"
proof -
  let ?bad = "(example_message ''RECEIVED'' (example_chat []) None)\<lparr>isinstance_ChatMessage := False\<rparr>"
  let ?r = "example_message ''RECEIVED'' (example_chat []) None"
  let ?boom = "example_message ''SENT'' (example_chat []) (Some (OtherException ''boom''))"
  let ?sk = "example_message ''RECEIVED'' (example_chat []) (Some SkypeError)"
  let ?raising = "example_backend\<lparr>callback_message := (\<lambda>msg. Some SkypeError)\<rparr>"
  let ?msg = "\<lparr>body = Some ''hello'', type = ''chat'',
           frm = Some (User_identifier \<lparr>SkypeUser_user = example_alice\<rparr>),
           to = Some (bot_identifier example_backend)\<rparr>"
  have bad: "Status ?bad = ''RECEIVED''" "make_message example_backend ?bad = Inl AssertionError"
    by (simp_all add: example_message_def make_message_def)
  have mk: "\<And>bk st seen. make_message bk (example_message st (example_chat []) seen) =
      Inr \<lparr>body = Some ''hello'', type = ''chat'',
           frm = Some (User_identifier \<lparr>SkypeUser_user = example_alice\<rparr>),
           to = Some (bot_identifier bk)\<rparr>"
    by (simp add: make_message_def example_message_def example_chat_def SkypeUser_init_def
        example_alice_def)
  have r: "Status ?r = ''RECEIVED''" "Status ?sk = ''RECEIVED''" "Status ?boom \<noteq> ''RECEIVED''"
    "MarkAsSeen_raises ?boom = Some (OtherException ''boom'')"
    "MarkAsSeen_raises ?sk = Some SkypeError"
    by (simp_all add: example_message_def)
  have cb: "callback_message ?raising = (\<lambda>msg. Some SkypeError)"
    "callback_message example_backend = (\<lambda>msg. None)"
    by (simp_all add: example_backend_def)
  from message_event_handler_exceptions [of example_backend ?bad "''RECEIVED''" "[]" AssertionError] bad
  have a: "message_event_handler example_backend ?bad ''RECEIVED'' [] = (Some AssertionError, [])"
    by blast
  from message_event_handler_exceptions [of ?raising ?r "''RECEIVED''" "[]" SkypeError] r mk cb
  have b: "fst (message_event_handler ?raising ?r ''RECEIVED'' []) = Some SkypeError"
    by simp
  from message_event_handler_exceptions [of example_backend ?boom "''SENT''" "[]" "OtherException ''boom''"] r
  have c: "fst (message_event_handler example_backend ?boom ''SENT'' []) = Some (OtherException ''boom'')"
    by simp
  from message_event_handler_exceptions [of example_backend ?sk "''RECEIVED''" "[]"] r mk cb
  have d: "fst (message_event_handler example_backend ?sk ''RECEIVED'' []) = None"
    by simp
  from a b c d show ?thesis by simp
qed

subsection \<open>Memoization of build_identifier\<close>

lemma build_identifier_hit:
  "build_identifier_cache self txt = Some r \<Longrightarrow> build_identifier self txt tr = (Inr r, self, tr)"
  by (simp add: build_identifier_def)

lemma build_identifier_stores:
  "build_identifier self txt tr = (Inr r, self1, tr1) \<Longrightarrow> build_identifier_cache self1 txt = Some r"
  by (auto simp add: build_identifier_def split: option.splits prod.splits sum.splits)

lemma build_identifier_keeps:
  "build_identifier self txt tr = (res, self1, tr1) \<Longrightarrow>
   build_identifier_cache self k = Some r \<Longrightarrow> build_identifier_cache self1 k = Some r"
  by (auto simp add: build_identifier_def split: option.splits prod.splits sum.splits)

lemma build_identifier_raises_stores_nothing:
  "build_identifier self txt tr = (Inl e, self1, tr1) \<Longrightarrow> self1 = self"
  by (auto simp add: build_identifier_def split: option.splits prod.splits sum.splits)

lemma build_identifier_calls_keep:
  "build_identifier_calls calls self tr = (self2, tr2) \<Longrightarrow>
   build_identifier_cache self k = Some r \<Longrightarrow> build_identifier_cache self2 k = Some r"
proof (induction calls arbitrary: self tr)
  case Nil
  then show ?case by simp
next
  case (Cons call calls)
  obtain client arg where call: "call = (client, arg)" by (cases call)
  obtain res self1 tr1 where step:
    "build_identifier (self\<lparr>skype := client\<rparr>) arg tr = (res, self1, tr1)"
    by (cases "build_identifier (self\<lparr>skype := client\<rparr>) arg tr") auto
  from Cons.prems(2) have "build_identifier_cache (self\<lparr>skype := client\<rparr>) k = Some r"
    by simp
  with step have "build_identifier_cache self1 k = Some r"
    by (rule build_identifier_keeps)
  moreover from Cons.prems(1) call step have "build_identifier_calls calls self1 tr1 = (self2, tr2)"
    by simp
  ultimately show ?case by (rule Cons.IH [rotated])
qed

lemma example_dave_unknown:
  "build_identifier_wrapped example_backend ''dave'' tr =
     (Inl ValueError, tr @ [Get_Friends, Get_Chats, Call_SearchForUsers ''dave''])"
  by (simp add: build_identifier_wrapped_def query_room_def example_backend_def example_client_def
      example_alice_def example_chat_def)

text \<open>
  C5, as stated: any second call of \<open>build_identifier\<close> with the same argument
  returns the result of the first without reading the client's lists again, and two
  calls with the same argument return the same. This fails when the first call raises:
  for a name nobody has, the first call raises \<open>ValueError\<close> after reading the friends,
  the chats and the directory, the second call reads all three again, and once the
  name is on the friend list a further call returns a user.
\<close>

theorem build_identifier_error_not_memoized:
  "build_identifier example_backend ''dave'' [] =
     (Inl ValueError, example_backend, [Get_Friends, Get_Chats, Call_SearchForUsers ''dave''])
   \<and> build_identifier example_backend ''dave'' [Get_Friends, Get_Chats, Call_SearchForUsers ''dave''] =
     (Inl ValueError, example_backend,
      [Get_Friends, Get_Chats, Call_SearchForUsers ''dave'',
       Get_Friends, Get_Chats, Call_SearchForUsers ''dave''])
   \<and> fst (build_identifier
            (example_backend\<lparr>skype := example_client\<lparr>Friends := [example_alice, example_dave]\<rparr>\<rparr>)
            ''dave'' [Get_Friends, Get_Chats, Call_SearchForUsers ''dave''])
       = Inr (User_identifier \<lparr>SkypeUser_user = example_dave\<rparr>)
   \<and> fst (build_identifier
            (example_backend\<lparr>skype := example_client\<lparr>Friends := [example_alice, example_dave]\<rparr>\<rparr>)
            ''dave'' [Get_Friends, Get_Chats, Call_SearchForUsers ''dave''])
       \<noteq> fst (build_identifier example_backend ''dave'' [])"
proof -
  have cache: "build_identifier_cache example_backend ''dave'' = None"
    by (simp add: example_backend_def)
  have a: "\<And>tr. build_identifier example_backend ''dave'' tr =
     (Inl ValueError, example_backend, tr @ [Get_Friends, Get_Chats, Call_SearchForUsers ''dave''])"
    by (simp add: build_identifier_def cache example_dave_unknown)
  have b: "fst (build_identifier
            (example_backend\<lparr>skype := example_client\<lparr>Friends := [example_alice, example_dave]\<rparr>\<rparr>)
            ''dave'' [Get_Friends, Get_Chats, Call_SearchForUsers ''dave''])
       = Inr (User_identifier \<lparr>SkypeUser_user = example_dave\<rparr>)"
    by (simp add: build_identifier_def build_identifier_wrapped_def example_backend_def
        example_alice_def example_dave_def SkypeUser_init_def)
  from a [of "[]"] a [of "[Get_Friends, Get_Chats, Call_SearchForUsers ''dave'']"] b
  show ?thesis by simp
qed

text \<open>
  C5, amended: once a call of \<open>build_identifier\<close> has returned a result for an
  argument, every later call with that argument, after any other calls and in any state
  of the client, returns that result and leaves the backend and the trace as they are
  (nothing is read again). A call that raises stores nothing.
\<close>

theorem build_identifier_memoizes_results:
  "(build_identifier self txt tr = (Inr result, self1, tr1) \<longrightarrow>
    build_identifier_calls calls self1 tr1 = (self2, tr2) \<longrightarrow>
      build_identifier (self2\<lparr>skype := client\<rparr>) txt tr3
        = (Inr result, self2\<lparr>skype := client\<rparr>, tr3))
   \<and> (build_identifier self txt tr = (Inl e, self1, tr1) \<longrightarrow> self1 = self)"
proof (intro conjI impI)
  assume first: "build_identifier self txt tr = (Inr result, self1, tr1)"
    and later: "build_identifier_calls calls self1 tr1 = (self2, tr2)"
  from first have "build_identifier_cache self1 txt = Some result"
    by (rule build_identifier_stores)
  with later have "build_identifier_cache self2 txt = Some result"
    by (rule build_identifier_calls_keep)
  then have "build_identifier_cache (self2\<lparr>skype := client\<rparr>) txt = Some result"
    by simp
  then show "build_identifier (self2\<lparr>skype := client\<rparr>) txt tr3
        = (Inr result, self2\<lparr>skype := client\<rparr>, tr3)"
    by (rule build_identifier_hit)
next
  assume "build_identifier self txt tr = (Inl e, self1, tr1)"
  then show "self1 = self" by (rule build_identifier_raises_stores_nothing)
qed

theorem build_identifier_memoizes_results_witness:
  "fst (build_identifier example_backend ''alice'' [])
     = Inr (User_identifier \<lparr>SkypeUser_user = example_alice\<rparr>)
   \<and> build_identifier
        ((fst (build_identifier_calls [(example_client, ''carol'')]
                 (fst (snd (build_identifier example_backend ''alice'' [])))
                 (snd (snd (build_identifier example_backend ''alice'' [])))))
           \<lparr>skype := example_client\<lparr>Friends := []\<rparr>\<rparr>)
        ''alice'' []
     = (Inr (User_identifier \<lparr>SkypeUser_user = example_alice\<rparr>),
        (fst (build_identifier_calls [(example_client, ''carol'')]
                 (fst (snd (build_identifier example_backend ''alice'' [])))
                 (snd (snd (build_identifier example_backend ''alice'' [])))))
           \<lparr>skype := example_client\<lparr>Friends := []\<rparr>\<rparr>,
        [])"
proof -
  let ?first = "build_identifier example_backend ''alice'' []"
  let ?later = "build_identifier_calls [(example_client, ''carol'')] (fst (snd ?first)) (snd (snd ?first))"
  have res: "fst ?first = Inr (User_identifier \<lparr>SkypeUser_user = example_alice\<rparr>)"
    by (simp add: build_identifier_def build_identifier_wrapped_def example_backend_def
        example_client_def example_alice_def SkypeUser_init_def)
  then have first: "?first =
      (Inr (User_identifier \<lparr>SkypeUser_user = example_alice\<rparr>), fst (snd ?first), snd (snd ?first))"
    by (metis prod.collapse)
  have later: "?later = (fst ?later, snd ?later)"
    by simp
  from build_identifier_memoizes_results
    [of example_backend "''alice''" "[]" "User_identifier \<lparr>SkypeUser_user = example_alice\<rparr>"
        "fst (snd ?first)" "snd (snd ?first)" "[(example_client, ''carol'')]"
        "fst ?later" "snd ?later" "example_client\<lparr>Friends := []\<rparr>" "[]"]
    first later
  have "build_identifier ((fst ?later)\<lparr>skype := example_client\<lparr>Friends := []\<rparr>\<rparr>) ''alice'' []
     = (Inr (User_identifier \<lparr>SkypeUser_user = example_alice\<rparr>),
        (fst ?later)\<lparr>skype := example_client\<lparr>Friends := []\<rparr>\<rparr>, [])"
    by blast
  with res show ?thesis by simp
qed

end
